theory Spec2Isabelle
  imports Main "HOL-Library.Multiset" "HOL-Library.Char_ord" "HOL-Library.List_Lexorder"
begin

section \<open>Data model (src/types/index.ts and the schema of database/db.ts)\<close>

text \<open>
  The enumeration \<open>SitterType\<close> of the source has the string values \<open>"pet"\<close>,
  \<open>"house"\<close> and \<open>"both"\<close>; the column \<open>sitterType\<close> stores that text.
\<close>

datatype SitterType = PET | HOUSE | BOTH

fun sitterType_text :: "SitterType \<Rightarrow> string" where
  "sitterType_text PET = ''pet''"
| "sitterType_text HOUSE = ''house''"
| "sitterType_text BOTH = ''both''"

text \<open>
  A row of table \<open>listings\<close> (interface \<open>Listing\<close>). The integer columns are \<open>int\<close>,
  the text columns are byte strings; \<open>createdAt\<close> holds the ISO text of the clock.
  The column \<open>id\<close> is the field \<open>id_listing\<close> (\<open>id\<close> is the identity function of HOL).
\<close>

record Listing =
  id_listing :: int
  creatorRoleId :: int
  sitterType :: SitterType
  location :: string
  startDate :: string
  endDate :: string
  description :: string
  createdAt :: string

text \<open>A row of table \<open>saved_listings\<close>; its column \<open>id\<close> is the field \<open>id_saved\<close>.\<close>

record SavedListing =
  id_saved :: int
  listingId :: int
  sitterRoleId :: int
  savedAt :: string

text \<open>
  A table is its rows, in insertion order, together with the largest rowid the table has
  ever handed out (the entry that \<open>AUTOINCREMENT\<close> keeps in \<open>sqlite_sequence\<close>).
\<close>

record 'r table =
  trows :: "'r list"
  tseq :: int

text \<open>
  The store: the two relations of the schema, each absent (\<open>None\<close>) until its
  \<open>CREATE TABLE IF NOT EXISTS\<close> has run, and the connection's \<open>foreign_keys\<close> pragma.
  SQLite enforces the declared \<open>FOREIGN KEY ... ON DELETE CASCADE\<close> on a connection only
  while that pragma is on; a connection is opened with it off.
\<close>

record database =
  listings :: "Listing table option"
  saved_listings :: "SavedListing table option"
  foreign_keys :: bool

datatype sql_error = NoSuchTable string | ForeignKeyConstraintFailed

type_synonym 'a result = "sql_error + 'a"

section \<open>The store (database/db.ts)\<close>

text \<open>
  \<open>openDB\<close> on first use: \<open>SQLite.openDatabaseAsync("sitconnect.db")\<close> on a device that
  has no such file yet. No statement of the repository changes the pragma afterwards.
\<close>

definition openDB :: database where
  "openDB = \<lparr>listings = None, saved_listings = None, foreign_keys = False\<rparr>"

text \<open>\<open>CREATE TABLE IF NOT EXISTS\<close>: an existing table is left as it is.\<close>

definition create_table_if_not_exists :: "'r table option \<Rightarrow> 'r table option" where
  "create_table_if_not_exists t =
     (case t of None \<Rightarrow> Some \<lparr>trows = [], tseq = 0\<rparr> | Some tb \<Rightarrow> Some tb)"

text \<open>
  The rowid of an inserted row of an \<open>INTEGER PRIMARY KEY AUTOINCREMENT\<close> table: one more
  than the largest rowid that is or ever was in the table.
\<close>

definition next_rowid :: "int list \<Rightarrow> int \<Rightarrow> int" where
  "next_rowid ids s = fold max ids s + 1"

text \<open>
  \<open>INSERT INTO listings (creatorRoleId, sitterType, location, startDate, endDate,
  description, createdAt) VALUES (?, ?, ?, ?, ?, ?, ?)\<close>; the result is the new table and
  \<open>lastInsertRowId\<close>.
\<close>

definition insert_listing ::
  "int \<Rightarrow> SitterType \<Rightarrow> string \<Rightarrow> string \<Rightarrow> string \<Rightarrow> string \<Rightarrow> string
     \<Rightarrow> Listing table \<Rightarrow> Listing table \<times> int" where
  "insert_listing c ty loc sd ed descr now t =
     (let i = next_rowid (map id_listing (trows t)) (tseq t);
          row = \<lparr>id_listing = i, creatorRoleId = c, sitterType = ty, location = loc,
                 startDate = sd, endDate = ed, description = descr, createdAt = now\<rparr>
      in (\<lparr>trows = trows t @ [row], tseq = i\<rparr>, i))"

text \<open>
  The fixed fields of the five sample listings of \<open>seedSampleData\<close>, in the order of
  the array; each \<open>createdAt\<close> is a reading of the clock of its own.
\<close>

definition sampleListings :: "(int \<times> SitterType \<times> string \<times> string \<times> string \<times> string) list" where
  "sampleListings =
    [(1, PET, ''Cape Town, Western Cape'', ''2025-01-10'', ''2025-01-20'',
      ''Looking for a reliable pet sitter for my two cats while I travel. They are friendly and low-maintenance.''),
     (1, HOUSE, ''Stellenbosch, Western Cape'', ''2025-02-01'', ''2025-02-14'',
      ''Need someone to house sit our home in Stellenbosch. Must water plants and collect mail.''),
     (1, BOTH, ''Johannesburg, Gauteng'', ''2025-03-05'', ''2025-03-15'',
      ''Looking for someone to watch our house and take care of our dog. Dog needs daily walks.''),
     (1, PET, ''Durban, KwaZulu-Natal'', ''2025-01-25'', ''2025-02-05'',
      ''Need a pet sitter for my golden retriever. Very friendly and energetic, loves playing fetch.''),
     (1, HOUSE, ''Pretoria, Gauteng'', ''2025-02-20'', ''2025-03-01'',
      ''House sitting needed for our apartment. Simple tasks include watering garden and maintaining security.'')]"

text \<open>
  The loop of \<open>seedSampleData\<close>: one \<open>INSERT\<close> per sample, in order. \<open>clock k\<close> is the
  \<open>k\<close>-th reading of \<open>new Date().toISOString()\<close> taken while the array is built.
\<close>

fun seed_loop ::
  "(nat \<Rightarrow> string) \<Rightarrow> nat \<Rightarrow> (int \<times> SitterType \<times> string \<times> string \<times> string \<times> string) list
     \<Rightarrow> Listing table \<Rightarrow> Listing table" where
  "seed_loop clock k [] t = t"
| "seed_loop clock k ((c, ty, loc, sd, ed, descr) # rest) t =
     seed_loop clock (Suc k) rest (fst (insert_listing c ty loc sd ed descr (clock k) t))"

definition seedSampleData :: "(nat \<Rightarrow> string) \<Rightarrow> Listing table \<Rightarrow> Listing table" where
  "seedSampleData clock t = seed_loop clock 0 sampleListings t"

text \<open>
  \<open>initDatabase\<close>: both \<open>CREATE TABLE IF NOT EXISTS\<close> statements, then
  \<open>SELECT COUNT(*) as count FROM listings\<close>, and the seeding when that count is \<open>0\<close>.
\<close>

definition initDatabase :: "(nat \<Rightarrow> string) \<Rightarrow> database \<Rightarrow> database result" where
  "initDatabase clock d =
     (let d1 = d\<lparr>listings := create_table_if_not_exists (listings d)\<rparr>;
          d2 = d1\<lparr>saved_listings := create_table_if_not_exists (saved_listings d1)\<rparr>
      in case listings d2 of
           None \<Rightarrow> Inl (NoSuchTable ''listings'')
         | Some lt \<Rightarrow>
             if int (length (trows lt)) = 0
             then Inr (d2\<lparr>listings := Some (seedSampleData clock lt)\<rparr>)
             else Inr d2)"

section \<open>Listing operations (services/listingService.ts)\<close>

text \<open>
  \<open>ORDER BY key DESC\<close> as an insertion sort; rows with equal keys keep the order of
  the table (SQL leaves their order open, and no theorem below depends on it).
\<close>

fun insert_desc :: "('r \<Rightarrow> 'k::linorder) \<Rightarrow> 'r \<Rightarrow> 'r list \<Rightarrow> 'r list" where
  "insert_desc key x [] = [x]"
| "insert_desc key x (y # ys) =
     (if key y \<le> key x then x # y # ys else y # insert_desc key x ys)"

definition order_by_desc :: "('r \<Rightarrow> 'k::linorder) \<Rightarrow> 'r list \<Rightarrow> 'r list" where
  "order_by_desc key rs = foldr (insert_desc key) rs []"

text \<open>\<open>createListing\<close>; \<open>now\<close> is \<open>new Date().toISOString()\<close>.\<close>

definition createListing ::
  "int \<Rightarrow> SitterType \<Rightarrow> string \<Rightarrow> string \<Rightarrow> string \<Rightarrow> string \<Rightarrow> string
     \<Rightarrow> database \<Rightarrow> (int \<times> database) result" where
  "createListing c ty loc sd ed descr now d =
     (case listings d of
        None \<Rightarrow> Inl (NoSuchTable ''listings'')
      | Some t \<Rightarrow>
          (let (t', i) = insert_listing c ty loc sd ed descr now t
           in Inr (i, d\<lparr>listings := Some t'\<rparr>)))"

text \<open>\<open>SELECT * FROM listings ORDER BY createdAt DESC\<close>\<close>

definition getAllListings :: "database \<Rightarrow> Listing list result" where
  "getAllListings d =
     (case listings d of
        None \<Rightarrow> Inl (NoSuchTable ''listings'')
      | Some t \<Rightarrow> Inr (order_by_desc createdAt (trows t)))"

text \<open>\<open>SELECT * FROM listings WHERE creatorRoleId = ? ORDER BY createdAt DESC\<close>\<close>

definition getListingsByCreator :: "int \<Rightarrow> database \<Rightarrow> Listing list result" where
  "getListingsByCreator c d =
     (case listings d of
        None \<Rightarrow> Inl (NoSuchTable ''listings'')
      | Some t \<Rightarrow>
          Inr (order_by_desc createdAt (filter (\<lambda>l. creatorRoleId l = c) (trows t))))"

text \<open>
  \<open>SELECT * FROM listings WHERE id = ?\<close> through \<open>getFirstAsync\<close>: the first
  matching row, or \<open>null\<close>.
\<close>

definition getListingById :: "int \<Rightarrow> database \<Rightarrow> Listing option result" where
  "getListingById i d =
     (case listings d of
        None \<Rightarrow> Inl (NoSuchTable ''listings'')
      | Some t \<Rightarrow> Inr (find (\<lambda>l. id_listing l = i) (trows t)))"

text \<open>The argument of \<open>filterListingsByType\<close>, of type \<open>SitterType | "all"\<close>.\<close>

datatype type_filter = All | OfType SitterType

text \<open>
  \<open>filterListingsByType\<close>: \<open>"all"\<close> hands over to \<open>getAllListings\<close>; otherwise
  \<open>SELECT * FROM listings WHERE sitterType = ? OR sitterType = ? ORDER BY createdAt DESC\<close>
  with the parameters \<open>[sitterType, SitterType.BOTH]\<close>.
\<close>

definition filterListingsByType :: "type_filter \<Rightarrow> database \<Rightarrow> Listing list result" where
  "filterListingsByType f d =
     (case f of
        All \<Rightarrow> getAllListings d
      | OfType ty \<Rightarrow>
          (case listings d of
             None \<Rightarrow> Inl (NoSuchTable ''listings'')
           | Some t \<Rightarrow>
               Inr (order_by_desc createdAt
                      (filter (\<lambda>l. sitterType l = ty \<or> sitterType l = BOTH) (trows t)))))"

text \<open>
  \<open>UPDATE listings SET sitterType = ?, location = ?, startDate = ?, endDate = ?,
  description = ? WHERE id = ?\<close>
\<close>

definition updateListing ::
  "int \<Rightarrow> SitterType \<Rightarrow> string \<Rightarrow> string \<Rightarrow> string \<Rightarrow> string
     \<Rightarrow> database \<Rightarrow> database result" where
  "updateListing i ty loc sd ed descr d =
     (case listings d of
        None \<Rightarrow> Inl (NoSuchTable ''listings'')
      | Some t \<Rightarrow>
          Inr (d\<lparr>listings := Some (t\<lparr>trows :=
                 map (\<lambda>l. if id_listing l = i
                          then l\<lparr>sitterType := ty, location := loc, startDate := sd,
                                 endDate := ed, description := descr\<rparr>
                          else l) (trows t)\<rparr>)\<rparr>))"

text \<open>
  \<open>DELETE FROM listings WHERE id = ?\<close>. The rows of \<open>saved_listings\<close> that reference
  a deleted listing go with it when the connection enforces foreign keys, and stay
  otherwise.
\<close>

definition deleteListing :: "int \<Rightarrow> database \<Rightarrow> database result" where
  "deleteListing i d =
     (case listings d of
        None \<Rightarrow> Inl (NoSuchTable ''listings'')
      | Some t \<Rightarrow>
          (let d1 = d\<lparr>listings := Some (t\<lparr>trows := filter (\<lambda>l. id_listing l \<noteq> i) (trows t)\<rparr>)\<rparr>
           in if foreign_keys d \<and> list_ex (\<lambda>l. id_listing l = i) (trows t)
              then (case saved_listings d of
                      None \<Rightarrow> Inr d1
                    | Some s \<Rightarrow>
                        Inr (d1\<lparr>saved_listings :=
                               Some (s\<lparr>trows := filter (\<lambda>r. listingId r \<noteq> i) (trows s)\<rparr>)\<rparr>))
              else Inr d1))"

section \<open>Saved listings (services/listingService.ts)\<close>

text \<open>
  \<open>saveListingForSitter\<close>: the lookup
  \<open>SELECT * FROM saved_listings WHERE listingId = ? AND sitterRoleId = ?\<close>, the early
  return when it finds a row, and otherwise
  \<open>INSERT INTO saved_listings (listingId, sitterRoleId, savedAt) VALUES (?, ?, ?)\<close>,
  which a connection that enforces foreign keys refuses for a listing that does not exist.
\<close>

definition saveListingForSitter :: "int \<Rightarrow> int \<Rightarrow> string \<Rightarrow> database \<Rightarrow> database result" where
  "saveListingForSitter l s now d =
     (case saved_listings d of
        None \<Rightarrow> Inl (NoSuchTable ''saved_listings'')
      | Some st \<Rightarrow>
          (case find (\<lambda>r. listingId r = l \<and> sitterRoleId r = s) (trows st) of
             Some existing \<Rightarrow> Inr d
           | None \<Rightarrow>
               (let i = next_rowid (map id_saved (trows st)) (tseq st);
                    row = \<lparr>id_saved = i, listingId = l, sitterRoleId = s, savedAt = now\<rparr>;
                    d1 = d\<lparr>saved_listings := Some \<lparr>trows = trows st @ [row], tseq = i\<rparr>\<rparr>
                in if foreign_keys d
                   then (case listings d of
                           None \<Rightarrow> Inl (NoSuchTable ''listings'')
                         | Some lt \<Rightarrow>
                             if list_ex (\<lambda>x. id_listing x = l) (trows lt)
                             then Inr d1 else Inl ForeignKeyConstraintFailed)
                   else Inr d1)))"

text \<open>\<open>DELETE FROM saved_listings WHERE listingId = ? AND sitterRoleId = ?\<close>\<close>

definition unsaveListingForSitter :: "int \<Rightarrow> int \<Rightarrow> database \<Rightarrow> database result" where
  "unsaveListingForSitter l s d =
     (case saved_listings d of
        None \<Rightarrow> Inl (NoSuchTable ''saved_listings'')
      | Some st \<Rightarrow>
          Inr (d\<lparr>saved_listings := Some (st\<lparr>trows :=
                 filter (\<lambda>r. \<not> (listingId r = l \<and> sitterRoleId r = s)) (trows st)\<rparr>)\<rparr>))"

text \<open>\<open>isListingSaved\<close>: \<open>result !== null\<close> for the same lookup.\<close>

definition isListingSaved :: "int \<Rightarrow> int \<Rightarrow> database \<Rightarrow> bool result" where
  "isListingSaved l s d =
     (case saved_listings d of
        None \<Rightarrow> Inl (NoSuchTable ''saved_listings'')
      | Some st \<Rightarrow>
          Inr (find (\<lambda>r. listingId r = l \<and> sitterRoleId r = s) (trows st) \<noteq> None))"

text \<open>
  \<open>SELECT l.* FROM listings l INNER JOIN saved_listings sl ON l.id = sl.listingId
  WHERE sl.sitterRoleId = ? ORDER BY sl.savedAt DESC\<close>: the joined pairs, ordered by the
  bookmark's \<open>savedAt\<close>, projected to the listing.
\<close>

definition joined :: "int \<Rightarrow> Listing list \<Rightarrow> SavedListing list \<Rightarrow> (Listing \<times> SavedListing) list" where
  "joined s ls ss =
     concat (map (\<lambda>l. map (\<lambda>sl. (l, sl))
                          (filter (\<lambda>sl. id_listing l = listingId sl \<and> sitterRoleId sl = s) ss)) ls)"

definition getSavedListingsForSitter :: "int \<Rightarrow> database \<Rightarrow> Listing list result" where
  "getSavedListingsForSitter s d =
     (case listings d of
        None \<Rightarrow> Inl (NoSuchTable ''listings'')
      | Some lt \<Rightarrow>
          (case saved_listings d of
             None \<Rightarrow> Inl (NoSuchTable ''saved_listings'')
           | Some st \<Rightarrow>
               Inr (map fst (order_by_desc (\<lambda>p. savedAt (snd p))
                               (joined s (trows lt) (trows st))))))"

section \<open>Histories of calls\<close>

text \<open>
  The calls through which the screens change the store. A call that fails throws to its
  caller and leaves the store as it was.
\<close>

datatype operation =
    Initialize "nat \<Rightarrow> string"
  | Create int SitterType string string string string string
  | Update int SitterType string string string string
  | Delete int
  | Save int int string
  | Unsave int int

fun apply_operation :: "operation \<Rightarrow> database \<Rightarrow> database result" where
  "apply_operation (Initialize clock) d = initDatabase clock d"
| "apply_operation (Create c ty loc sd ed descr now) d =
     (case createListing c ty loc sd ed descr now d of
        Inl e \<Rightarrow> Inl e | Inr (i, d') \<Rightarrow> Inr d')"
| "apply_operation (Update i ty loc sd ed descr) d = updateListing i ty loc sd ed descr d"
| "apply_operation (Delete i) d = deleteListing i d"
| "apply_operation (Save l s now) d = saveListingForSitter l s now d"
| "apply_operation (Unsave l s) d = unsaveListingForSitter l s d"

fun run :: "operation list \<Rightarrow> database \<Rightarrow> database" where
  "run [] d = d"
| "run (op # ops) d =
     (case apply_operation op d of Inl e \<Rightarrow> run ops d | Inr d' \<Rightarrow> run ops d')"

text \<open>No two rows of \<open>saved_listings\<close> have the same (listingId, sitterRoleId) pair.\<close>

definition pair_of :: "SavedListing \<Rightarrow> int \<times> int" where
  "pair_of r = (listingId r, sitterRoleId r)"

definition pairs_unique :: "database \<Rightarrow> bool" where
  "pairs_unique d =
     (case saved_listings d of None \<Rightarrow> True | Some st \<Rightarrow> distinct (map pair_of (trows st)))"

section \<open>Example stores\<close>

text \<open>
  A small store used to instantiate the theorems: three listings, the third by another
  creator, and two bookmarks of sitter 7.
\<close>

definition example_listing :: "int \<Rightarrow> int \<Rightarrow> SitterType \<Rightarrow> string \<Rightarrow> Listing" where
  "example_listing i c ty at =
     \<lparr>id_listing = i, creatorRoleId = c, sitterType = ty, location = ''Paarl, Western Cape'',
      startDate = ''2025-04-01'', endDate = ''2025-04-05'', description = ''Feed the cat.'',
      createdAt = at\<rparr>"

definition example_listings :: "Listing table" where
  "example_listings =
     \<lparr>trows = [example_listing 1 1 PET ''2025-01-01T08:00:00.000Z'',
               example_listing 2 1 HOUSE ''2025-01-02T08:00:00.000Z'',
               example_listing 3 2 BOTH ''2025-01-03T08:00:00.000Z''],
      tseq = 3\<rparr>"

definition example_saved :: "SavedListing table" where
  "example_saved =
     \<lparr>trows = [\<lparr>id_saved = 1, listingId = 1, sitterRoleId = 7,
                savedAt = ''2025-01-04T08:00:00.000Z''\<rparr>,
               \<lparr>id_saved = 2, listingId = 3, sitterRoleId = 7,
                savedAt = ''2025-01-05T08:00:00.000Z''\<rparr>],
      tseq = 2\<rparr>"

definition example_store :: database where
  "example_store =
     \<lparr>listings = Some example_listings, saved_listings = Some example_saved,
      foreign_keys = False\<rparr>"

text \<open>The clock of the examples: five readings a second apart.\<close>

definition example_clock :: "nat \<Rightarrow> string" where
  "example_clock k =
     (if k = 0 then ''2025-01-01T08:00:00.000Z''
      else if k = 1 then ''2025-01-01T08:00:01.000Z''
      else if k = 2 then ''2025-01-01T08:00:02.000Z''
      else if k = 3 then ''2025-01-01T08:00:03.000Z''
      else ''2025-01-01T08:00:04.000Z'')"

text \<open>A history of calls on a new store: one listing is bookmarked twice by sitter 7.\<close>

definition example_history :: "operation list" where
  "example_history =
     [Initialize example_clock,
      Save 1 7 ''2025-01-02T08:00:00.000Z'',
      Save 1 7 ''2025-01-02T09:00:00.000Z'',
      Save 2 7 ''2025-01-02T10:00:00.000Z'',
      Unsave 2 7]"

section \<open>Ordering, row ids and lookups\<close>

text \<open>
  The text of the three enumeration values is pairwise different, so comparing the column
  with a parameter is comparing the enumeration values.
\<close>

lemma inj_sitterType_text: "inj sitterType_text"
proof (rule injI)
  fix a b assume "sitterType_text a = sitterType_text b"
  then show "a = b" by (cases a; cases b) simp_all
qed

text \<open>
  \<open>ORDER BY ... DESC\<close> returns the rows it was given, with the keys descending.
\<close>

lemma mset_insert_desc: "mset (insert_desc key x rs) = add_mset x (mset rs)"
  by (induction rs) simp_all

lemma mset_order_by_desc: "mset (order_by_desc key rs) = mset rs"
  by (induction rs) (simp_all add: order_by_desc_def mset_insert_desc)

lemma set_insert_desc: "set (insert_desc key x rs) = insert x (set rs)"
  by (induction rs) auto

lemma set_order_by_desc: "set (order_by_desc key rs) = set rs"
  using mset_order_by_desc [of key rs] by (metis set_mset_mset)

lemma count_list_order_by_desc: "count_list (order_by_desc key rs) x = count_list rs x"
  using mset_order_by_desc [of key rs] by (metis count_mset)

lemma sorted_insert_desc:
  "sorted_wrt (\<lambda>a b. key b \<le> key a) rs \<Longrightarrow> sorted_wrt (\<lambda>a b. key b \<le> key a) (insert_desc key x rs)"
  by (induction rs) (auto simp: set_insert_desc)

lemma sorted_order_by_desc: "sorted_wrt (\<lambda>a b. key b \<le> key a) (order_by_desc key rs)"
  by (induction rs) (simp_all add: order_by_desc_def sorted_insert_desc)

text \<open>
  An inserted row gets a rowid above those of all rows of the table and above the
  recorded sequence value.
\<close>

lemma fold_max_ge_start: "(s::int) \<le> fold max ids s"
proof (induction ids arbitrary: s)
  case Nil
  show ?case by simp
next
  case (Cons a ids)
  have "s \<le> max a s" by simp
  also have "\<dots> \<le> fold max ids (max a s)" by (rule Cons.IH)
  finally show ?case by simp
qed

lemma fold_max_ge_elem: "x \<in> set ids \<Longrightarrow> (x::int) \<le> fold max ids s"
proof (induction ids arbitrary: s)
  case Nil
  then show ?case by simp
next
  case (Cons a ids)
  show ?case
  proof (cases "x = a")
    case True
    have "a \<le> max a s" by simp
    also have "\<dots> \<le> fold max ids (max a s)" by (rule fold_max_ge_start)
    finally show ?thesis using True by simp
  next
    case False
    with Cons.prems have "x \<in> set ids" by simp
    then show ?thesis using Cons.IH by simp
  qed
qed

lemma next_rowid_fresh: "x \<in> set ids \<Longrightarrow> x < next_rowid ids s"
  using fold_max_ge_elem [of x ids s] by (simp add: next_rowid_def)

lemma next_rowid_above_seq: "s < next_rowid ids s"
  using fold_max_ge_start [of s ids] by (simp add: next_rowid_def)

lemma find_snoc:
  "find P (xs @ [r]) = (case find P xs of None \<Rightarrow> (if P r then Some r else None) | Some x \<Rightarrow> Some x)"
  by (induction xs) simp_all

text \<open>
  The join holds a pair once for each way of picking a listing row and a bookmark row
  that match.
\<close>

lemma count_list_joined_row:
  "count_list (map (Pair a) (filter P ss)) (l, sl) =
     (if a = l \<and> P sl then count_list ss sl else 0)"
  by (induction ss) auto

lemma count_list_joined:
  "count_list (joined s ls ss) (l, sl) =
     (if id_listing l = listingId sl \<and> sitterRoleId sl = s
      then count_list ls l * count_list ss sl else 0)"
proof (induction ls)
  case Nil
  show ?case by (simp add: joined_def)
next
  case (Cons a ls)
  have "joined s (a # ls) ss =
          map (Pair a) (filter (\<lambda>sl. id_listing a = listingId sl \<and> sitterRoleId sl = s) ss)
          @ joined s ls ss"
    by (simp add: joined_def)
  then show ?case
    using Cons.IH by (auto simp: count_list_joined_row)
qed

lemma set_joined:
  "set (joined s ls ss) =
     {(l, sl). l \<in> set ls \<and> sl \<in> set ss \<and> id_listing l = listingId sl \<and> sitterRoleId sl = s}"
  by (auto simp: joined_def)

section \<open>Deleting a listing\<close>

text \<open>
  The listing is gone after \<open>deleteListing\<close>: \<open>getListingById\<close>, \<open>getAllListings\<close> and
  the join of \<open>getSavedListingsForSitter\<close> no longer return it, whatever the pragma.
\<close>

lemma deleteListing_removes_listing:
  assumes "listings d = Some t"
  shows "\<exists>d' t'. deleteListing i d = Inr d' \<and> listings d' = Some t'
           \<and> trows t' = filter (\<lambda>l. id_listing l \<noteq> i) (trows t)
           \<and> getListingById i d' = Inr None
           \<and> (\<forall>rs. getAllListings d' = Inr rs \<longrightarrow> (\<forall>l \<in> set rs. id_listing l \<noteq> i))
           \<and> (\<forall>s rs. getSavedListingsForSitter s d' = Inr rs \<longrightarrow> (\<forall>l \<in> set rs. id_listing l \<noteq> i))"
proof -
  let ?t = "t\<lparr>trows := filter (\<lambda>l. id_listing l \<noteq> i) (trows t)\<rparr>"
  have none: "find (\<lambda>l. id_listing l = i) (filter (\<lambda>l. id_listing l \<noteq> i) (trows t)) = None"
    by (simp add: find_None_iff)
  have saved: "\<forall>l \<in> set rs. id_listing l \<noteq> i"
    if "listings d' = Some ?t" and "getSavedListingsForSitter s d' = Inr rs" for d' s rs
    using that
    by (auto simp: getSavedListingsForSitter_def set_order_by_desc set_joined split: option.splits)
  have all: "\<forall>l \<in> set rs. id_listing l \<noteq> i"
    if "listings d' = Some ?t" and "getAllListings d' = Inr rs" for d' rs
    using that by (auto simp: getAllListings_def set_order_by_desc)
  have "\<exists>d'. deleteListing i d = Inr d' \<and> listings d' = Some ?t"
    using assms by (cases "saved_listings d") (simp_all add: deleteListing_def Let_def)
  then obtain d' where d': "deleteListing i d = Inr d'" "listings d' = Some ?t"
    by blast
  have "getListingById i d' = Inr None"
    using d'(2) none by (simp add: getListingById_def)
  moreover have "trows ?t = filter (\<lambda>l. id_listing l \<noteq> i) (trows t)"
    by simp
  moreover note d' saved [OF d'(2)] all [OF d'(2)]
  ultimately show ?thesis
    by blast
qed

text \<open>
  The bookmarks of a deleted listing are removed on a connection that enforces foreign
  keys, and none is removed on a connection that does not.
\<close>

lemma deleteListing_cascade_enforced:
  assumes "listings d = Some t" and "saved_listings d = Some st" and "foreign_keys d"
    and "\<exists>l \<in> set (trows t). id_listing l = i"
  shows "\<exists>d' st'. deleteListing i d = Inr d' \<and> saved_listings d' = Some st'
           \<and> trows st' = filter (\<lambda>r. listingId r \<noteq> i) (trows st)"
  using assms by (auto simp: deleteListing_def Let_def list_ex_iff)

lemma deleteListing_no_cascade_unenforced:
  assumes "listings d = Some t" and "\<not> foreign_keys d"
  shows "\<exists>d'. deleteListing i d = Inr d' \<and> saved_listings d' = saved_listings d"
  using assms by (simp add: deleteListing_def Let_def)

text \<open>
  No call turns the pragma on: every store reached from \<open>openDB\<close> has it off.
\<close>

lemma saveListingForSitter_cases:
  assumes "saveListingForSitter l s now d = Inr d'"
  obtains st where "saved_listings d = Some st" and "d' = d"
      and "find (\<lambda>r. listingId r = l \<and> sitterRoleId r = s) (trows st) \<noteq> None"
  | st i where "saved_listings d = Some st"
      and "find (\<lambda>r. listingId r = l \<and> sitterRoleId r = s) (trows st) = None"
      and "d' = d\<lparr>saved_listings := Some \<lparr>trows = trows st @
                 [\<lparr>id_saved = i, listingId = l, sitterRoleId = s, savedAt = now\<rparr>], tseq = i\<rparr>\<rparr>"
  using assms
  by (auto simp: saveListingForSitter_def Let_def split: option.splits if_splits)

lemma foreign_keys_initDatabase:
  "initDatabase clock d = Inr d' \<Longrightarrow> foreign_keys d' = foreign_keys d"
  by (auto simp: initDatabase_def Let_def split: option.splits if_splits)

lemma foreign_keys_createListing:
  "createListing c ty loc sd ed descr now d = Inr (i, d') \<Longrightarrow> foreign_keys d' = foreign_keys d"
  by (auto simp: createListing_def insert_listing_def Let_def split: option.splits)

lemma foreign_keys_updateListing:
  "updateListing i ty loc sd ed descr d = Inr d' \<Longrightarrow> foreign_keys d' = foreign_keys d"
  by (auto simp: updateListing_def split: option.splits)

lemma foreign_keys_deleteListing:
  "deleteListing i d = Inr d' \<Longrightarrow> foreign_keys d' = foreign_keys d"
  by (auto simp: deleteListing_def Let_def split: option.splits if_splits)

lemma foreign_keys_saveListingForSitter:
  "saveListingForSitter l s now d = Inr d' \<Longrightarrow> foreign_keys d' = foreign_keys d"
  by (erule saveListingForSitter_cases) simp_all

lemma foreign_keys_unsaveListingForSitter:
  "unsaveListingForSitter l s d = Inr d' \<Longrightarrow> foreign_keys d' = foreign_keys d"
  by (auto simp: unsaveListingForSitter_def split: option.splits)

lemma foreign_keys_apply_operation:
  "apply_operation op d = Inr d' \<Longrightarrow> foreign_keys d' = foreign_keys d"
proof (cases op)
  case (Create c ty loc sd ed descr now)
  assume "apply_operation op d = Inr d'"
  with Create show ?thesis
    by (auto split: sum.splits dest: foreign_keys_createListing)
qed (auto dest: foreign_keys_initDatabase foreign_keys_updateListing foreign_keys_deleteListing
       foreign_keys_saveListingForSitter foreign_keys_unsaveListingForSitter)

lemma foreign_keys_run: "foreign_keys (run ops d) = foreign_keys d"
proof (induction ops arbitrary: d)
  case Nil
  show ?case by simp
next
  case (Cons op ops)
  then show ?case
    by (cases "apply_operation op d") (simp_all add: foreign_keys_apply_operation)
qed

lemma foreign_keys_never_enforced: "\<not> foreign_keys (run ops openDB)"
  by (simp add: foreign_keys_run openDB_def)

text \<open>
  Claim C1 (delete removes the listing and every bookmark that references it). On the
  store as the application opens it the second half fails: after \<open>initDatabase\<close>, a
  bookmark of listing 1 by sitter 7 and \<open>deleteListing 1\<close>, the listing is gone but its
  bookmark row is still in \<open>saved_listings\<close> and \<open>isListingSaved 1 7\<close> still answers
  true.
\<close>

theorem deleteListing_keeps_saved_listings:
  "\<exists>d1 d2 d3 st.
       initDatabase example_clock openDB = Inr d1
     \<and> saveListingForSitter 1 7 ''2025-01-02T08:00:00.000Z'' d1 = Inr d2
     \<and> getListingById 1 d2 \<noteq> Inr None
     \<and> deleteListing 1 d2 = Inr d3
     \<and> getListingById 1 d3 = Inr None
     \<and> saved_listings d3 = Some st \<and> map listingId (trows st) = [1]
     \<and> isListingSaved 1 7 d3 = Inr True"
  by (simp add: initDatabase_def openDB_def create_table_if_not_exists_def seedSampleData_def
        sampleListings_def insert_listing_def next_rowid_def saveListingForSitter_def
        getListingById_def deleteListing_def isListingSaved_def Let_def)

section \<open>Filtering by sitter type\<close>

text \<open>
  Claim C2: on a store with the listings table, \<open>filterListingsByType\<close> with \<open>PET\<close>
  returns exactly the rows whose type is \<open>PET\<close> or \<open>BOTH\<close>, with \<open>HOUSE\<close> exactly those
  whose type is \<open>HOUSE\<close> or \<open>BOTH\<close>, with \<open>BOTH\<close> exactly those whose type is \<open>BOTH\<close>,
  and with \<open>"all"\<close> what \<open>getAllListings\<close> returns, which is every row; each result has
  \<open>createdAt\<close> descending.
\<close>

theorem filterListingsByType_exact:
  assumes "listings d = Some t"
  shows "(\<exists>rs. filterListingsByType (OfType PET) d = Inr rs
            \<and> mset rs = filter_mset (\<lambda>l. sitterType l = PET \<or> sitterType l = BOTH) (mset (trows t))
            \<and> sorted_wrt (\<lambda>a b. createdAt b \<le> createdAt a) rs)
       \<and> (\<exists>rs. filterListingsByType (OfType HOUSE) d = Inr rs
            \<and> mset rs = filter_mset (\<lambda>l. sitterType l = HOUSE \<or> sitterType l = BOTH) (mset (trows t))
            \<and> sorted_wrt (\<lambda>a b. createdAt b \<le> createdAt a) rs)
       \<and> (\<exists>rs. filterListingsByType (OfType BOTH) d = Inr rs
            \<and> mset rs = filter_mset (\<lambda>l. sitterType l = BOTH) (mset (trows t))
            \<and> sorted_wrt (\<lambda>a b. createdAt b \<le> createdAt a) rs)
       \<and> (\<exists>rs. filterListingsByType All d = Inr rs \<and> getAllListings d = Inr rs
            \<and> mset rs = mset (trows t)
            \<and> sorted_wrt (\<lambda>a b. createdAt b \<le> createdAt a) rs)"
  using assms
  by (simp add: filterListingsByType_def getAllListings_def mset_order_by_desc sorted_order_by_desc)

theorem filterListingsByType_exact_witness:
  "listings example_store = Some example_listings
   \<and> (\<exists>rs. filterListingsByType (OfType PET) example_store = Inr rs
          \<and> mset rs = filter_mset (\<lambda>l. sitterType l = PET \<or> sitterType l = BOTH)
                         (mset (trows example_listings))
          \<and> sorted_wrt (\<lambda>a b. createdAt b \<le> createdAt a) rs)
   \<and> filterListingsByType (OfType PET) example_store =
        Inr [example_listing 3 2 BOTH ''2025-01-03T08:00:00.000Z'',
             example_listing 1 1 PET ''2025-01-01T08:00:00.000Z'']
   \<and> filterListingsByType (OfType BOTH) example_store =
        Inr [example_listing 3 2 BOTH ''2025-01-03T08:00:00.000Z'']
   \<and> filterListingsByType All example_store = getAllListings example_store"
  using filterListingsByType_exact [of example_store example_listings]
  by (simp add: example_store_def example_listings_def example_listing_def
        filterListingsByType_def order_by_desc_def)

section \<open>Initialisation and seeding\<close>

lemma length_seed_loop:
  "length (trows (seed_loop clock k xs t)) = length (trows t) + length xs"
  by (induction clock k xs t rule: seed_loop.induct) (simp_all add: insert_listing_def Let_def)

lemma length_sampleListings: "length sampleListings = 5"
  by (simp add: sampleListings_def)

lemma length_seedSampleData: "length (trows (seedSampleData clock t)) = length (trows t) + 5"
  by (simp only: seedSampleData_def length_seed_loop length_sampleListings)

text \<open>
  Claim C3: \<open>initDatabase\<close> always returns a store with both tables, and running it again
  on that store changes nothing. When the listings table already had rows the first run
  leaves them as they were (no seeding); when it was absent or empty the table has five
  rows after the first run, hence also after the second.
\<close>

theorem initDatabase_idempotent:
  "\<exists>d1 t1 s1. initDatabase c1 d = Inr d1
      \<and> listings d1 = Some t1 \<and> saved_listings d1 = Some s1
      \<and> foreign_keys d1 = foreign_keys d
      \<and> initDatabase c2 d1 = Inr d1
      \<and> (\<forall>t. listings d = Some t \<and> trows t \<noteq> [] \<longrightarrow> t1 = t)
      \<and> (\<forall>s. saved_listings d = Some s \<longrightarrow> s1 = s)
      \<and> (listings d = None \<or> (\<exists>t. listings d = Some t \<and> trows t = [])
            \<longrightarrow> length (trows t1) = 5)"
proof (cases "listings d")
  case None
  then show ?thesis
    by (cases "saved_listings d")
       (simp_all add: initDatabase_def create_table_if_not_exists_def length_seedSampleData)
next
  case (Some t)
  show ?thesis
  proof (cases "trows t = []")
    case True
    with Some show ?thesis
      by (cases "saved_listings d")
         (simp_all add: initDatabase_def create_table_if_not_exists_def length_seedSampleData)
  next
    case False
    with Some show ?thesis
      by (cases "saved_listings d")
         (simp_all add: initDatabase_def create_table_if_not_exists_def)
  qed
qed

theorem initDatabase_idempotent_witness:
  "(\<exists>d1 t1. initDatabase example_clock openDB = Inr d1
        \<and> initDatabase (\<lambda>k. ''2025-06-01T00:00:00.000Z'') d1 = Inr d1
        \<and> listings d1 = Some t1 \<and> length (trows t1) = 5)
   \<and> trows example_listings \<noteq> []
   \<and> (\<exists>d1. initDatabase example_clock example_store = Inr d1
        \<and> listings d1 = Some example_listings \<and> saved_listings d1 = Some example_saved)"
proof -
  have h1: "listings openDB = None"
    by (simp add: openDB_def)
  have h2: "listings example_store = Some example_listings \<and> trows example_listings \<noteq> []"
    and h3: "saved_listings example_store = Some example_saved"
    by (simp_all add: example_store_def example_listings_def)
  from initDatabase_idempotent [of example_clock openDB "\<lambda>k. ''2025-06-01T00:00:00.000Z''"] h1
  have a: "\<exists>d1 t1. initDatabase example_clock openDB = Inr d1
        \<and> initDatabase (\<lambda>k. ''2025-06-01T00:00:00.000Z'') d1 = Inr d1
        \<and> listings d1 = Some t1 \<and> length (trows t1) = 5"
    by blast
  from initDatabase_idempotent [of example_clock example_store example_clock] h2 h3
  have b: "\<exists>d1. initDatabase example_clock example_store = Inr d1
        \<and> listings d1 = Some example_listings \<and> saved_listings d1 = Some example_saved"
    by blast
  from a b h2 show ?thesis by blast
qed

section \<open>Bookmarks\<close>

lemma filter_pair_le_one:
  "distinct (map f xs) \<Longrightarrow> length (filter (\<lambda>x. f x = p) xs) \<le> 1"
proof (induction xs)
  case Nil
  show ?case by simp
next
  case (Cons x xs)
  show ?case
  proof (cases "f x = p")
    case True
    with Cons.prems have "p \<notin> f ` set xs" by simp
    then have "\<forall>y \<in> set xs. f y \<noteq> p" by blast
    then have "filter (\<lambda>y. f y = p) xs = []" by (simp add: filter_empty_conv)
    with True show ?thesis by simp
  next
    case False
    with Cons show ?thesis by simp
  qed
qed

lemma pair_of_eq: "(pair_of r = (l, s)) = (listingId r = l \<and> sitterRoleId r = s)"
  by (simp add: pair_of_def)

lemma pairs_unique_initDatabase:
  "pairs_unique d \<Longrightarrow> initDatabase clock d = Inr d' \<Longrightarrow> pairs_unique d'"
  by (cases "saved_listings d")
     (auto simp: pairs_unique_def initDatabase_def create_table_if_not_exists_def Let_def
           split: option.splits if_splits)

lemma pairs_unique_createListing:
  "pairs_unique d \<Longrightarrow> createListing c ty loc sd ed descr now d = Inr (i, d') \<Longrightarrow> pairs_unique d'"
  by (auto simp: pairs_unique_def createListing_def insert_listing_def Let_def split: option.splits)

lemma pairs_unique_updateListing:
  "pairs_unique d \<Longrightarrow> updateListing i ty loc sd ed descr d = Inr d' \<Longrightarrow> pairs_unique d'"
  by (auto simp: pairs_unique_def updateListing_def split: option.splits)

lemma pairs_unique_deleteListing:
  "pairs_unique d \<Longrightarrow> deleteListing i d = Inr d' \<Longrightarrow> pairs_unique d'"
  by (auto simp: pairs_unique_def deleteListing_def Let_def distinct_map_filter
           split: option.splits if_splits)

lemma pairs_unique_unsaveListingForSitter:
  "pairs_unique d \<Longrightarrow> unsaveListingForSitter l s d = Inr d' \<Longrightarrow> pairs_unique d'"
  by (auto simp: pairs_unique_def unsaveListingForSitter_def distinct_map_filter
           split: option.splits)

lemma pairs_unique_saveListingForSitter:
  assumes "pairs_unique d" and "saveListingForSitter l s now d = Inr d'"
  shows "pairs_unique d'"
  using assms(2)
proof (cases rule: saveListingForSitter_cases)
  case (1 st)
  with assms(1) show ?thesis by simp
next
  case (2 st i)
  from 2(2) have "(l, s) \<notin> pair_of ` set (trows st)"
    by (auto simp: find_None_iff pair_of_def)
  with assms(1) 2(1,3) show ?thesis
    by (simp add: pairs_unique_def pair_of_def)
qed

lemma pairs_unique_apply_operation:
  "pairs_unique d \<Longrightarrow> apply_operation op d = Inr d' \<Longrightarrow> pairs_unique d'"
proof (cases op)
  case (Create c ty loc sd ed descr now)
  assume "pairs_unique d" "apply_operation op d = Inr d'"
  with Create show ?thesis
    by (auto split: sum.splits dest: pairs_unique_createListing)
qed (auto dest: pairs_unique_initDatabase pairs_unique_updateListing pairs_unique_deleteListing
       pairs_unique_saveListingForSitter pairs_unique_unsaveListingForSitter)

lemma pairs_unique_run: "pairs_unique d \<Longrightarrow> pairs_unique (run ops d)"
proof (induction ops arbitrary: d)
  case Nil
  then show ?case by simp
next
  case (Cons op ops)
  show ?case
  proof (cases "apply_operation op d")
    case (Inl e)
    with Cons show ?thesis by simp
  next
    case (Inr d')
    with Cons.prems have "pairs_unique d'" by (rule_tac pairs_unique_apply_operation)
    with Cons.IH Inr show ?thesis by simp
  qed
qed

lemma saveListingForSitter_twice:
  assumes "saveListingForSitter l s t1 d = Inr d1"
  shows "saveListingForSitter l s t2 d1 = Inr d1"
  using assms
proof (cases rule: saveListingForSitter_cases)
  case (1 st)
  then show ?thesis by (auto simp: saveListingForSitter_def)
next
  case (2 st i)
  then show ?thesis by (simp add: saveListingForSitter_def find_snoc)
qed

lemma saveListingForSitter_present:
  assumes "saveListingForSitter l s now d = Inr d'"
  shows "\<exists>st. saved_listings d' = Some st
           \<and> 1 \<le> length (filter (\<lambda>r. listingId r = l \<and> sitterRoleId r = s) (trows st))"
  using assms
proof (cases rule: saveListingForSitter_cases)
  case (1 st)
  then obtain r where "r \<in> set (trows st)" "listingId r = l \<and> sitterRoleId r = s"
    by (auto simp: find_None_iff)
  then have "filter (\<lambda>r. listingId r = l \<and> sitterRoleId r = s) (trows st) \<noteq> []"
    by (auto simp: filter_empty_conv)
  then have "1 \<le> length (filter (\<lambda>r. listingId r = l \<and> sitterRoleId r = s) (trows st))"
    by (cases "filter (\<lambda>r. listingId r = l \<and> sitterRoleId r = s) (trows st)") simp_all
  with 1 show ?thesis by simp
next
  case (2 st i)
  then show ?thesis by simp
qed

text \<open>
  Claim C4: starting from a store without duplicate pairs (a new store is one), after any
  history of calls the table \<open>saved_listings\<close> holds at most one row for every
  (listingId, sitterRoleId) pair; and when \<open>saveListingForSitter\<close> is then called twice
  for one pair, the second call changes nothing and the table holds exactly one row for
  the pair.
\<close>

theorem saved_listing_pair_unique:
  assumes "pairs_unique d0"
  shows "(\<forall>st l s. saved_listings (run ops d0) = Some st \<longrightarrow>
            length (filter (\<lambda>r. listingId r = l \<and> sitterRoleId r = s) (trows st)) \<le> 1)
       \<and> (\<forall>l s t1 t2 d1. saveListingForSitter l s t1 (run ops d0) = Inr d1 \<longrightarrow>
            saveListingForSitter l s t2 d1 = Inr d1
          \<and> (\<exists>st. saved_listings d1 = Some st
                 \<and> length (filter (\<lambda>r. listingId r = l \<and> sitterRoleId r = s) (trows st)) = 1))"
proof -
  have le_one: "length (filter (\<lambda>r. listingId r = l \<and> sitterRoleId r = s) (trows st)) \<le> 1"
    if "pairs_unique d" and "saved_listings d = Some st" for d st l s
    using that filter_pair_le_one [of pair_of "trows st" "(l, s)"]
    by (simp add: pairs_unique_def pair_of_eq)
  have inv: "pairs_unique (run ops d0)"
    using assms by (rule pairs_unique_run)
  have twice: "saveListingForSitter l s t2 d1 = Inr d1
          \<and> (\<exists>st. saved_listings d1 = Some st
                 \<and> length (filter (\<lambda>r. listingId r = l \<and> sitterRoleId r = s) (trows st)) = 1)"
    if save: "saveListingForSitter l s t1 (run ops d0) = Inr d1" for l s t1 t2 d1
  proof -
    from inv save have "pairs_unique d1" by (rule pairs_unique_saveListingForSitter)
    moreover from save obtain st where st: "saved_listings d1 = Some st"
      and "1 \<le> length (filter (\<lambda>r. listingId r = l \<and> sitterRoleId r = s) (trows st))"
      using saveListingForSitter_present by blast
    ultimately have "length (filter (\<lambda>r. listingId r = l \<and> sitterRoleId r = s) (trows st)) = 1"
      using le_one [of d1 st l s] by simp
    with st saveListingForSitter_twice [OF save] show ?thesis by simp
  qed
  from inv le_one twice show ?thesis by blast
qed

theorem saved_listing_pair_unique_witness:
  "pairs_unique openDB
   \<and> (\<exists>st. saved_listings (run example_history openDB) = Some st
          \<and> length (filter (\<lambda>r. listingId r = 1 \<and> sitterRoleId r = 7) (trows st)) \<le> 1)
   \<and> (\<exists>d1. saveListingForSitter 3 7 ''2025-01-03T08:00:00.000Z'' (run example_history openDB) = Inr d1
          \<and> saveListingForSitter 3 7 ''2025-01-03T09:00:00.000Z'' d1 = Inr d1
          \<and> (\<exists>st. saved_listings d1 = Some st
                 \<and> length (filter (\<lambda>r. listingId r = 3 \<and> sitterRoleId r = 7) (trows st)) = 1))"
proof -
  have h: "pairs_unique openDB"
    by (simp add: pairs_unique_def openDB_def)
  have tbl: "\<exists>st. saved_listings (run example_history openDB) = Some st"
    by (simp add: example_history_def openDB_def initDatabase_def create_table_if_not_exists_def
          saveListingForSitter_def unsaveListingForSitter_def Let_def)
  have fk: "\<not> foreign_keys (run example_history openDB)"
    by (simp add: example_history_def openDB_def initDatabase_def create_table_if_not_exists_def
          saveListingForSitter_def unsaveListingForSitter_def Let_def)
  have save: "\<exists>d1. saveListingForSitter 3 7 ''2025-01-03T08:00:00.000Z''
                 (run example_history openDB) = Inr d1"
    using tbl fk by (auto simp: saveListingForSitter_def Let_def split: option.splits)
  from saved_listing_pair_unique [OF h, of example_history] tbl save
  show ?thesis using h by blast
qed

section \<open>Creating, updating and reading listings\<close>

text \<open>
  Claim C5: on a store with the listings table, \<open>createListing\<close> appends one row that
  holds the six arguments and the clock reading as \<open>createdAt\<close>, returns that row's id,
  which is above the id of every row already there, and \<open>getListingById\<close> with that id
  on the new store returns that row.
\<close>

theorem createListing_then_getListingById:
  assumes "listings d = Some t"
  shows "\<exists>i. createListing c ty loc sd ed descr now d =
               Inr (i, d\<lparr>listings := Some \<lparr>trows = trows t @
                      [\<lparr>id_listing = i, creatorRoleId = c, sitterType = ty, location = loc,
                        startDate = sd, endDate = ed, description = descr, createdAt = now\<rparr>],
                      tseq = i\<rparr>\<rparr>)
           \<and> (\<forall>l \<in> set (trows t). id_listing l < i)
           \<and> getListingById i (d\<lparr>listings := Some \<lparr>trows = trows t @
                      [\<lparr>id_listing = i, creatorRoleId = c, sitterType = ty, location = loc,
                        startDate = sd, endDate = ed, description = descr, createdAt = now\<rparr>],
                      tseq = i\<rparr>\<rparr>) =
               Inr (Some \<lparr>id_listing = i, creatorRoleId = c, sitterType = ty, location = loc,
                        startDate = sd, endDate = ed, description = descr, createdAt = now\<rparr>)"
proof -
  let ?i = "next_rowid (map id_listing (trows t)) (tseq t)"
  have fresh: "\<forall>l \<in> set (trows t). id_listing l < ?i"
    by (simp add: next_rowid_fresh)
  then have none: "find (\<lambda>l. id_listing l = ?i) (trows t) = None"
    by (auto simp: find_None_iff)
  show ?thesis
    using assms fresh none
    by (intro exI [of _ ?i])
       (simp add: createListing_def insert_listing_def getListingById_def find_snoc Let_def)
qed

theorem createListing_then_getListingById_witness:
  "listings example_store = Some example_listings
   \<and> (\<exists>d'. createListing 2 PET ''Knysna'' ''2025-05-01'' ''2025-05-02'' ''Walk the dog.''
              ''2025-01-06T08:00:00.000Z'' example_store = Inr (4, d')
          \<and> getListingById 4 d' =
              Inr (Some \<lparr>id_listing = 4, creatorRoleId = 2, sitterType = PET, location = ''Knysna'',
                         startDate = ''2025-05-01'', endDate = ''2025-05-02'',
                         description = ''Walk the dog.'', createdAt = ''2025-01-06T08:00:00.000Z''\<rparr>))"
proof -
  have h: "listings example_store = Some example_listings"
    by (simp add: example_store_def)
  have four: "createListing 2 PET ''Knysna'' ''2025-05-01'' ''2025-05-02'' ''Walk the dog.''
              ''2025-01-06T08:00:00.000Z'' example_store = Inr (i, d') \<Longrightarrow> i = 4" for i d'
    by (simp add: createListing_def insert_listing_def next_rowid_def example_store_def
          example_listings_def example_listing_def Let_def)
  from createListing_then_getListingById [OF h, of 2 PET "''Knysna''" "''2025-05-01''"
         "''2025-05-02''" "''Walk the dog.''" "''2025-01-06T08:00:00.000Z''"]
  show ?thesis using h four by (metis (no_types, lifting))
qed

text \<open>
  Claim C6: \<open>updateListing\<close> changes the listings table only, keeps the number and order
  of its rows and its sequence value, keeps \<open>id\<close>, \<open>creatorRoleId\<close> and \<open>createdAt\<close> of
  every row, sets the five mutable fields of each row with the given id to the arguments,
  and leaves every row with another id as it was.
\<close>

theorem updateListing_frame:
  assumes "listings d = Some t"
  shows "\<exists>t'. updateListing i ty loc sd ed descr d = Inr (d\<lparr>listings := Some t'\<rparr>)
           \<and> tseq t' = tseq t
           \<and> length (trows t') = length (trows t)
           \<and> (\<forall>k < length (trows t).
                 id_listing (trows t' ! k) = id_listing (trows t ! k)
               \<and> creatorRoleId (trows t' ! k) = creatorRoleId (trows t ! k)
               \<and> createdAt (trows t' ! k) = createdAt (trows t ! k)
               \<and> (id_listing (trows t ! k) = i \<longrightarrow>
                     sitterType (trows t' ! k) = ty \<and> location (trows t' ! k) = loc
                   \<and> startDate (trows t' ! k) = sd \<and> endDate (trows t' ! k) = ed
                   \<and> description (trows t' ! k) = descr)
               \<and> (id_listing (trows t ! k) \<noteq> i \<longrightarrow> trows t' ! k = trows t ! k))"
proof -
  let ?f = "\<lambda>l. if id_listing l = i
                 then l\<lparr>sitterType := ty, location := loc, startDate := sd,
                        endDate := ed, description := descr\<rparr>
                 else l"
  show ?thesis
    using assms by (intro exI [of _ "t\<lparr>trows := map ?f (trows t)\<rparr>"]) (simp add: updateListing_def)
qed

theorem updateListing_frame_witness:
  "listings example_store = Some example_listings
   \<and> updateListing 2 BOTH ''Knysna'' ''2025-05-01'' ''2025-05-02'' ''Walk the dog.'' example_store
       = Inr (example_store\<lparr>listings := Some \<lparr>trows =
           [example_listing 1 1 PET ''2025-01-01T08:00:00.000Z'',
            \<lparr>id_listing = 2, creatorRoleId = 1, sitterType = BOTH, location = ''Knysna'',
             startDate = ''2025-05-01'', endDate = ''2025-05-02'',
             description = ''Walk the dog.'', createdAt = ''2025-01-02T08:00:00.000Z''\<rparr>,
            example_listing 3 2 BOTH ''2025-01-03T08:00:00.000Z''], tseq = 3\<rparr>\<rparr>)
   \<and> (\<exists>t'. updateListing 2 BOTH ''Knysna'' ''2025-05-01'' ''2025-05-02'' ''Walk the dog.''
               example_store = Inr (example_store\<lparr>listings := Some t'\<rparr>)
          \<and> tseq t' = tseq example_listings
          \<and> length (trows t') = length (trows example_listings)
          \<and> id_listing (trows example_listings ! 1) = 2
          \<and> creatorRoleId (trows t' ! 1) = creatorRoleId (trows example_listings ! 1)
          \<and> createdAt (trows t' ! 1) = createdAt (trows example_listings ! 1)
          \<and> location (trows t' ! 1) = ''Knysna''
          \<and> id_listing (trows example_listings ! 0) \<noteq> 2
          \<and> trows t' ! 0 = trows example_listings ! 0)"
proof -
  have h: "listings example_store = Some example_listings"
    by (simp add: example_store_def)
  have len: "(0::nat) < length (trows example_listings)" "(1::nat) < length (trows example_listings)"
    by (simp_all add: example_listings_def)
  have ids: "id_listing (trows example_listings ! 1) = 2" "id_listing (trows example_listings ! 0) \<noteq> 2"
    by (simp_all add: example_listings_def example_listing_def)
  have run: "updateListing 2 BOTH ''Knysna'' ''2025-05-01'' ''2025-05-02'' ''Walk the dog.'' example_store
       = Inr (example_store\<lparr>listings := Some \<lparr>trows =
           [example_listing 1 1 PET ''2025-01-01T08:00:00.000Z'',
            \<lparr>id_listing = 2, creatorRoleId = 1, sitterType = BOTH, location = ''Knysna'',
             startDate = ''2025-05-01'', endDate = ''2025-05-02'',
             description = ''Walk the dog.'', createdAt = ''2025-01-02T08:00:00.000Z''\<rparr>,
            example_listing 3 2 BOTH ''2025-01-03T08:00:00.000Z''], tseq = 3\<rparr>\<rparr>)"
    by (simp add: updateListing_def example_store_def example_listings_def example_listing_def)
  from updateListing_frame [OF h, of 2 BOTH "''Knysna''" "''2025-05-01''" "''2025-05-02''"
         "''Walk the dog.''"]
  obtain t' where t': "updateListing 2 BOTH ''Knysna'' ''2025-05-01'' ''2025-05-02'' ''Walk the dog.''
               example_store = Inr (example_store\<lparr>listings := Some t'\<rparr>)"
      "tseq t' = tseq example_listings" "length (trows t') = length (trows example_listings)"
      "\<forall>k < length (trows example_listings).
                 id_listing (trows t' ! k) = id_listing (trows example_listings ! k)
               \<and> creatorRoleId (trows t' ! k) = creatorRoleId (trows example_listings ! k)
               \<and> createdAt (trows t' ! k) = createdAt (trows example_listings ! k)
               \<and> (id_listing (trows example_listings ! k) = 2 \<longrightarrow>
                     sitterType (trows t' ! k) = BOTH \<and> location (trows t' ! k) = ''Knysna''
                   \<and> startDate (trows t' ! k) = ''2025-05-01'' \<and> endDate (trows t' ! k) = ''2025-05-02''
                   \<and> description (trows t' ! k) = ''Walk the dog.'')
               \<and> (id_listing (trows example_listings ! k) \<noteq> 2 \<longrightarrow> trows t' ! k = trows example_listings ! k)"
    by blast
  from t'(4) len ids have "creatorRoleId (trows t' ! 1) = creatorRoleId (trows example_listings ! 1)"
    "createdAt (trows t' ! 1) = createdAt (trows example_listings ! 1)"
    "location (trows t' ! 1) = ''Knysna''" "trows t' ! 0 = trows example_listings ! 0"
    by blast+
  with h run t'(1-3) ids show ?thesis by blast
qed

text \<open>
  Claim C7: when no row of the listings table has the given id, \<open>updateListing\<close> returns
  without an error and the store is the one it was given.
\<close>

theorem updateListing_absent_noop:
  assumes "listings d = Some t" and "\<forall>l \<in> set (trows t). id_listing l \<noteq> i"
  shows "updateListing i ty loc sd ed descr d = Inr d"
proof -
  let ?f = "\<lambda>l. if id_listing l = i
                 then l\<lparr>sitterType := ty, location := loc, startDate := sd,
                        endDate := ed, description := descr\<rparr>
                 else l"
  have "map ?f (trows t) = trows t"
    using assms(2) by (intro map_idI) simp
  then show ?thesis
    using assms(1) by (simp add: updateListing_def)
qed

theorem updateListing_absent_noop_witness:
  "listings example_store = Some example_listings
   \<and> map id_listing (trows example_listings) = [1, 2, 3]
   \<and> updateListing 9 BOTH ''Knysna'' ''2025-05-01'' ''2025-05-02'' ''Walk the dog.'' example_store
       = Inr example_store"
  using updateListing_absent_noop [of example_store example_listings 9 BOTH "''Knysna''"
          "''2025-05-01''" "''2025-05-02''" "''Walk the dog.''"]
  by (simp add: example_store_def example_listings_def example_listing_def)

text \<open>
  Claim C8: \<open>getListingsByCreator\<close> returns exactly the rows whose \<open>creatorRoleId\<close> is
  the argument, each as often as it is in the table, with \<open>createdAt\<close> descending.
\<close>

theorem getListingsByCreator_exact:
  assumes "listings d = Some t"
  shows "\<exists>rs. getListingsByCreator c d = Inr rs
           \<and> mset rs = filter_mset (\<lambda>l. creatorRoleId l = c) (mset (trows t))
           \<and> sorted_wrt (\<lambda>a b. createdAt b \<le> createdAt a) rs"
  using assms by (simp add: getListingsByCreator_def mset_order_by_desc sorted_order_by_desc)

theorem getListingsByCreator_exact_witness:
  "listings example_store = Some example_listings
   \<and> (\<exists>rs. getListingsByCreator 1 example_store = Inr rs
          \<and> mset rs = filter_mset (\<lambda>l. creatorRoleId l = 1) (mset (trows example_listings))
          \<and> sorted_wrt (\<lambda>a b. createdAt b \<le> createdAt a) rs)
   \<and> getListingsByCreator 1 example_store =
        Inr [example_listing 2 1 HOUSE ''2025-01-02T08:00:00.000Z'',
             example_listing 1 1 PET ''2025-01-01T08:00:00.000Z'']"
  using getListingsByCreator_exact [of example_store example_listings 1]
  by (simp add: example_store_def example_listings_def example_listing_def
        getListingsByCreator_def order_by_desc_def)

text \<open>
  Claim C9: \<open>getSavedListingsForSitter\<close> returns the listing components of the pairs
  (listing, bookmark) with \<open>listing.id = bookmark.listingId\<close> and the bookmark's
  \<open>sitterRoleId\<close> equal to the argument, each pair once for every way of picking its two
  rows, in the order of descending \<open>savedAt\<close> of the bookmark.
\<close>

theorem getSavedListingsForSitter_join:
  assumes "listings d = Some lt" and "saved_listings d = Some st"
  shows "\<exists>ps. getSavedListingsForSitter s d = Inr (map fst ps)
           \<and> sorted_wrt (\<lambda>p q. savedAt (snd q) \<le> savedAt (snd p)) ps
           \<and> set ps = {(l, sl). l \<in> set (trows lt) \<and> sl \<in> set (trows st)
                              \<and> id_listing l = listingId sl \<and> sitterRoleId sl = s}
           \<and> (\<forall>l sl. count_list ps (l, sl) =
                 (if id_listing l = listingId sl \<and> sitterRoleId sl = s
                  then count_list (trows lt) l * count_list (trows st) sl else 0))"
proof -
  let ?ps = "order_by_desc (\<lambda>p. savedAt (snd p)) (joined s (trows lt) (trows st))"
  have "getSavedListingsForSitter s d = Inr (map fst ?ps)"
    using assms by (simp add: getSavedListingsForSitter_def)
  moreover have "sorted_wrt (\<lambda>p q. savedAt (snd q) \<le> savedAt (snd p)) ?ps"
    by (rule sorted_order_by_desc)
  moreover have "set ?ps = {(l, sl). l \<in> set (trows lt) \<and> sl \<in> set (trows st)
                              \<and> id_listing l = listingId sl \<and> sitterRoleId sl = s}"
    by (simp only: set_order_by_desc set_joined)
  moreover have "\<forall>l sl. count_list ?ps (l, sl) =
                 (if id_listing l = listingId sl \<and> sitterRoleId sl = s
                  then count_list (trows lt) l * count_list (trows st) sl else 0)"
    by (simp only: count_list_order_by_desc count_list_joined) simp
  ultimately show ?thesis by blast
qed

theorem getSavedListingsForSitter_join_witness:
  "listings example_store = Some example_listings
   \<and> saved_listings example_store = Some example_saved
   \<and> getSavedListingsForSitter 7 example_store =
        Inr [example_listing 3 2 BOTH ''2025-01-03T08:00:00.000Z'',
             example_listing 1 1 PET ''2025-01-01T08:00:00.000Z'']
   \<and> (\<exists>ps. getSavedListingsForSitter 7 example_store = Inr (map fst ps)
          \<and> sorted_wrt (\<lambda>p q. savedAt (snd q) \<le> savedAt (snd p)) ps
          \<and> set ps = {(l, sl). l \<in> set (trows example_listings) \<and> sl \<in> set (trows example_saved)
                              \<and> id_listing l = listingId sl \<and> sitterRoleId sl = 7})"
proof -
  have h1: "listings example_store = Some example_listings"
    and h2: "saved_listings example_store = Some example_saved"
    by (simp_all add: example_store_def)
  have run: "getSavedListingsForSitter 7 example_store =
        Inr [example_listing 3 2 BOTH ''2025-01-03T08:00:00.000Z'',
             example_listing 1 1 PET ''2025-01-01T08:00:00.000Z'']"
    by (simp add: getSavedListingsForSitter_def joined_def order_by_desc_def example_store_def
          example_listings_def example_saved_def example_listing_def)
  from getSavedListingsForSitter_join [OF h1 h2, of 7] h1 h2 run
  show ?thesis by blast
qed

text \<open>
  Claim C10: when \<open>initDatabase\<close> seeds (the listings table was absent or empty), the five
  rows have \<open>creatorRoleId\<close> 1 and the types PET, HOUSE, BOTH, PET, HOUSE, and
  \<open>getListingsByCreator 1\<close> on the seeded store returns all five.
\<close>

theorem seeded_listings_by_creator:
  assumes "listings d = None \<or> (\<exists>t. listings d = Some t \<and> trows t = [])"
  shows "\<exists>d1 t1. initDatabase clock d = Inr d1 \<and> listings d1 = Some t1
           \<and> map creatorRoleId (trows t1) = [1, 1, 1, 1, 1]
           \<and> map sitterType (trows t1) = [PET, HOUSE, BOTH, PET, HOUSE]
           \<and> (\<exists>rs. getListingsByCreator 1 d1 = Inr rs \<and> mset rs = mset (trows t1)
                    \<and> length rs = 5)"
proof -
  have rows: "map creatorRoleId (trows (seedSampleData clock t)) = [1, 1, 1, 1, 1]
            \<and> map sitterType (trows (seedSampleData clock t)) = [PET, HOUSE, BOTH, PET, HOUSE]"
    if "trows t = []" for t :: "Listing table"
    using that by (simp add: seedSampleData_def sampleListings_def insert_listing_def Let_def)
  have by_creator: "\<exists>rs. getListingsByCreator 1 d1 = Inr rs \<and> mset rs = mset (trows t1) \<and> length rs = 5"
    if "listings d1 = Some t1" and "map creatorRoleId (trows t1) = [1, 1, 1, 1, 1]"
    for d1 t1
  proof -
    have "creatorRoleId ` set (trows t1) = set [1, 1, 1, 1, 1 :: int]"
      using that(2) by (metis set_map)
    then have "\<forall>l \<in> set (trows t1). creatorRoleId l = 1"
      by auto
    then have "filter (\<lambda>l. creatorRoleId l = 1) (trows t1) = trows t1"
      by simp
    moreover have "length (map creatorRoleId (trows t1)) = length [1, 1, 1, 1, 1 :: int]"
      by (simp only: that(2))
    then have "length (trows t1) = 5"
      by simp
    ultimately show ?thesis
      using that(1) mset_order_by_desc [of createdAt "trows t1"]
      by (simp add: getListingsByCreator_def) (metis size_mset)
  qed
  from assms show ?thesis
  proof
    assume "listings d = None"
    then show ?thesis
      using rows [of "\<lparr>trows = [], tseq = 0\<rparr>"] by_creator
      by (simp add: initDatabase_def create_table_if_not_exists_def)
  next
    assume "\<exists>t. listings d = Some t \<and> trows t = []"
    then obtain t where "listings d = Some t" "trows t = []" by blast
    then show ?thesis
      using rows [of t] by_creator
      by (simp add: initDatabase_def create_table_if_not_exists_def)
  qed
qed

theorem seeded_listings_by_creator_witness:
  "listings openDB = None
   \<and> (\<exists>d1 t1. initDatabase example_clock openDB = Inr d1 \<and> listings d1 = Some t1
          \<and> map creatorRoleId (trows t1) = [1, 1, 1, 1, 1]
          \<and> map sitterType (trows t1) = [PET, HOUSE, BOTH, PET, HOUSE]
          \<and> (\<exists>rs. getListingsByCreator 1 d1 = Inr rs \<and> mset rs = mset (trows t1)
                   \<and> length rs = 5))"
  using seeded_listings_by_creator [of openDB example_clock]
  by (simp add: openDB_def)

end
